theory Spec2Isabelle
  imports Complex_Main
begin

section \<open>JavaScript values used by the three processes\<close>

text \<open>
  A JavaScript number is a double: a finite value, one of the two infinities, or
  \<open>NaN\<close>. The two zeros are both \<open>Finite 0\<close>; rounding plays no part in what
  follows, so finite values are kept as reals.
\<close>

datatype jsnum = NaN | PosInf | NegInf | Finite real

text \<open>\<open>!n\<close> on a number: true for \<open>0\<close>, \<open>-0\<close> and \<open>NaN\<close> only.\<close>

fun not_num :: "jsnum \<Rightarrow> bool" where
  "not_num NaN = True"
| "not_num PosInf = False"
| "not_num NegInf = False"
| "not_num (Finite x) = (x = 0)"

text \<open>\<open>!s\<close> on a string: true for the empty string only.\<close>

definition not_str :: "string \<Rightarrow> bool" where
  "not_str s = (s = [])"

text \<open>
  \<open>String.prototype.trim\<close> removes white space at both ends. Characters are
  the 8-bit code units of \<open>char\<close>; the white space among them is TAB, LF, VT, FF,
  CR, SPACE and NBSP.
\<close>

definition js_whitespace :: "char \<Rightarrow> bool" where
  "js_whitespace c = (of_char c \<in> {9, 10, 11, 12, 13, 32, 160 :: nat})"

definition trim :: "string \<Rightarrow> string" where
  "trim s = rev (dropWhile js_whitespace (rev (dropWhile js_whitespace s)))"

text \<open>Decimal rendering of a length inside a template literal.\<close>

definition digit :: "nat \<Rightarrow> char" where
  "digit d = ''0123456789'' ! d"

function string_of_nat :: "nat \<Rightarrow> string" where
  "string_of_nat n = (if n < 10 then [digit n] else string_of_nat (n div 10) @ [digit (n mod 10)])"
  by pat_completeness auto
termination
  by (relation "measure (\<lambda>n. n)") auto

subsection \<open>\<open>Map\<close>: keyed, in insertion order\<close>

text \<open>
  A JavaScript \<open>Map\<close> keeps its entries in insertion order; \<open>set\<close> on a key that
  is present replaces the value in place, on a new key it appends.
\<close>

fun Map_set :: "'k \<Rightarrow> 'v \<Rightarrow> ('k \<times> 'v) list \<Rightarrow> ('k \<times> 'v) list" where
  "Map_set k v [] = [(k, v)]"
| "Map_set k v (e # m) = (if fst e = k then (k, v) # m else e # Map_set k v m)"

fun Map_get :: "'k \<Rightarrow> ('k \<times> 'v) list \<Rightarrow> 'v option" where
  "Map_get k [] = None"
| "Map_get k (e # m) = (if fst e = k then Some (snd e) else Map_get k m)"

definition Map_values :: "('k \<times> 'v) list \<Rightarrow> 'v list" where
  "Map_values m = map snd m"

definition Map_size :: "('k \<times> 'v) list \<Rightarrow> nat" where
  "Map_size m = length m"

section \<open>Records of the two stores\<close>

text \<open>
  The fields \<open>id\<close>, \<open>name\<close>, \<open>email\<close>, \<open>created_at\<close> of a user object and
  \<open>id\<close>, \<open>user_id\<close>, \<open>product_name\<close>, \<open>amount\<close>, \<open>quantity\<close>, \<open>status\<close>,
  \<open>created_at\<close> of an order object, prefixed to keep them apart.
\<close>

record User =
  u_id :: string
  u_name :: string
  u_email :: string
  u_created_at :: string

record Order =
  o_id :: string
  o_user_id :: string
  o_product_name :: string
  o_amount :: jsnum
  o_quantity :: jsnum
  o_status :: string
  o_created_at :: string

text \<open>
  \<open>const users = new Map()\<close> of the user service and \<open>const orders = new Map()\<close>
  of the order service: the whole state of the two backend processes.
\<close>

record stores =
  user_store :: "(string \<times> User) list"
  order_store :: "(string \<times> Order) list"

text \<open>What \<open>uuidv4()\<close> and \<open>new Date().toISOString()\<close> give to one handler run.\<close>

record env =
  uuid :: string
  now :: string

section \<open>Responses\<close>

record reply =
  success :: bool
  message :: string

record user_reply = reply +
  user :: "User option"

record users_reply = reply +
  users :: "User list"

record order_reply = reply +
  order :: "Order option"

record orders_reply = reply +
  orders :: "Order list"

record error_reply = reply +
  error :: string

section \<open>User service\<close>

definition GetUser :: "string \<Rightarrow> stores \<Rightarrow> user_reply \<times> stores" where
  "GetUser uid st =
     (if not_str uid then
        (\<lparr>success = False, message = ''User ID is required'', user = None\<rparr>, st)
      else
        (case Map_get uid (user_store st) of
           None \<Rightarrow> (\<lparr>success = False, message = ''User not found'', user = None\<rparr>, st)
         | Some u \<Rightarrow> (\<lparr>success = True, message = ''User found'', user = Some u\<rparr>, st)))"

definition CreateUser :: "env \<Rightarrow> string \<Rightarrow> string \<Rightarrow> stores \<Rightarrow> user_reply \<times> stores" where
  "CreateUser e nm em st =
     (if not_str nm \<or> not_str em then
        (\<lparr>success = False, message = ''Name and email are required'', user = None\<rparr>, st)
      else
        (let u = \<lparr>u_id = uuid e, u_name = nm, u_email = em, u_created_at = now e\<rparr>
         in (\<lparr>success = True, message = ''User created successfully'', user = Some u\<rparr>,
             st\<lparr>user_store := Map_set (u_id u) u (user_store st)\<rparr>)))"

definition ListUsers :: "stores \<Rightarrow> users_reply \<times> stores" where
  "ListUsers st =
     (let userList = Map_values (user_store st)
      in (\<lparr>success = True,
           message = ''Found '' @ string_of_nat (length userList) @ '' users'',
           users = userList\<rparr>, st))"

section \<open>Internal calls\<close>

text \<open>
  One unary call over a client handle either brings back the handler's response or
  fails with an error carrying a message. A failed call may never have reached the
  peer, or the peer may have run the handler and the response was lost. The exchange
  is typed: a request reaches the handler with its string fields as strings and its
  numeric fields as numbers, an absent field being the empty string or zero.
\<close>

datatype link = Up | Unreachable string | ResponseLost string

definition rpc :: "link \<Rightarrow> (stores \<Rightarrow> 'r \<times> stores) \<Rightarrow> stores \<Rightarrow> (string + 'r) \<times> stores" where
  "rpc l handler st =
     (case l of
        Up \<Rightarrow> (case handler st of (response, st') \<Rightarrow> (Inr response, st'))
      | Unreachable msg \<Rightarrow> (Inl msg, st)
      | ResponseLost msg \<Rightarrow> (Inl msg, snd (handler st)))"

fun fault_of :: "link \<Rightarrow> string option" where
  "fault_of Up = None"
| "fault_of (Unreachable msg) = Some msg"
| "fault_of (ResponseLost msg) = Some msg"

section \<open>Order service\<close>

record CreateOrderRequest =
  user_id :: string
  product_name :: string
  amount :: jsnum
  quantity :: jsnum

text \<open>
  \<open>verifyUser\<close>: the promise rejects with the error, or resolves with
  \<open>response.user\<close>. \<open>CreateOrder\<close> awaits it inside \<open>try\<close>; the \<open>catch\<close>
  branch answers with the error's message. One invocation is followed from its first
  statement to its callback, with no other request served in between.
\<close>

definition verifyUser :: "link \<Rightarrow> string \<Rightarrow> stores \<Rightarrow> (string + User option) \<times> stores" where
  "verifyUser l userId st =
     (case rpc l (GetUser userId) st of
        (Inl err, st') \<Rightarrow> (Inl err, st')
      | (Inr response, st') \<Rightarrow> (Inr (user response), st'))"

definition CreateOrder :: "link \<Rightarrow> env \<Rightarrow> CreateOrderRequest \<Rightarrow> stores \<Rightarrow> order_reply \<times> stores" where
  "CreateOrder l e req st =
     (if not_str (user_id req) \<or> not_str (product_name req)
         \<or> not_num (amount req) \<or> not_num (quantity req) then
        (\<lparr>success = False,
          message = ''User ID, Product Name, Amount and Quantity are required'',
          order = None\<rparr>, st)
      else
        (case verifyUser l (user_id req) st of
           (Inl err, st') \<Rightarrow> (\<lparr>success = False, message = err, order = None\<rparr>, st')
         | (Inr userReponse, st') \<Rightarrow>
             (case userReponse of
                None \<Rightarrow> (\<lparr>success = False, message = ''Invalid User ID'', order = None\<rparr>, st')
              | Some _ \<Rightarrow>
                  (let ord = \<lparr>o_id = uuid e, o_user_id = user_id req,
                              o_product_name = product_name req, o_amount = amount req,
                              o_quantity = quantity req, o_status = ''pending'',
                              o_created_at = now e\<rparr>
                   in (\<lparr>success = True, message = ''Order created successfully'',
                        order = Some ord\<rparr>,
                       st'\<lparr>order_store := Map_set (o_id ord) ord (order_store st')\<rparr>)))))"

definition GetOrder :: "string \<Rightarrow> stores \<Rightarrow> order_reply \<times> stores" where
  "GetOrder oid st =
     (if not_str oid then
        (\<lparr>success = False, message = ''Order ID is required'', order = None\<rparr>, st)
      else
        (case Map_get oid (order_store st) of
           None \<Rightarrow> (\<lparr>success = False, message = ''Order not found'', order = None\<rparr>, st)
         | Some ord \<Rightarrow>
             (\<lparr>success = True, message = ''Order retrieved successfully'', order = Some ord\<rparr>, st)))"

definition GetOrdersByUser :: "string \<Rightarrow> stores \<Rightarrow> orders_reply \<times> stores" where
  "GetOrdersByUser uid st =
     (if not_str uid then
        (\<lparr>success = False, message = ''User ID is required'', orders = []\<rparr>, st)
      else
        (let userOrders = filter (\<lambda>ord. o_user_id ord = uid) (Map_values (order_store st))
         in (\<lparr>success = True, message = ''Orders retrieved successfully'',
              orders = userOrders\<rparr>, st)))"

section \<open>Gateway\<close>

text \<open>
  The gateway holds \<open>userClient\<close> and \<open>orderClient\<close>; the order service holds a
  \<open>userClient\<close> of its own. Each handle is given the fate of the call made over it.
\<close>

record net =
  gateway_userClient :: link
  gateway_orderClient :: link
  order_userClient :: link

text \<open>The internal calls a route issues, in the order it issues them.\<close>

datatype call =
    GetUser_call string
  | CreateUser_call string string
  | ListUsers_call
  | CreateOrder_call CreateOrderRequest
  | GetOrder_call string
  | GetOrdersByUser_call string

record profile_data =
  profile_user :: "User option"
  profile_orders :: "Order list"
  order_count :: nat

record profile_reply = reply +
  data :: profile_data

text \<open>The shapes \<open>res.json\<close> is given.\<close>

datatype body =
    UserJson user_reply
  | UsersJson users_reply
  | OrderJson order_reply
  | OrdersJson orders_reply
  | ErrorJson error_reply
  | PlainJson reply
  | ProfileJson profile_reply

record http =
  status :: nat
  body :: body

text \<open>One run of a route: the response sent, the calls issued, the stores afterwards.\<close>

record run =
  http_response :: http
  calls :: "call list"
  stores_after :: stores

definition res_json :: "body \<Rightarrow> http" where
  "res_json b = \<lparr>status = 200, body = b\<rparr>"

definition handleGrpcError :: "string \<Rightarrow> http" where
  "handleGrpcError error_message =
     \<lparr>status = 500,
      body = ErrorJson \<lparr>success = False, message = ''Internal server error'',
                        error = error_message\<rparr>\<rparr>"

text \<open>
  The callback every pass-through route hands to its client:
  \<open>(error, response) => { if (error) return handleGrpcError(error, res); res.json(response); }\<close>
\<close>

definition callback :: "('r \<Rightarrow> body) \<Rightarrow> string + 'r \<Rightarrow> http" where
  "callback as_json result =
     (case result of
        Inl err \<Rightarrow> handleGrpcError err
      | Inr response \<Rightarrow> res_json (as_json response))"

text \<open>\<open>POST /api/users\<close>\<close>

definition post_users :: "net \<Rightarrow> env \<Rightarrow> string \<Rightarrow> string \<Rightarrow> stores \<Rightarrow> run" where
  "post_users n e nm em st =
     (case rpc (gateway_userClient n) (CreateUser e nm em) st of
        (result, st') \<Rightarrow>
          \<lparr>http_response = callback UserJson result,
           calls = [CreateUser_call nm em],
           stores_after = st'\<rparr>)"

text \<open>\<open>GET /api/users/:userId\<close>\<close>

definition get_user :: "net \<Rightarrow> string \<Rightarrow> stores \<Rightarrow> run" where
  "get_user n userId st =
     (if not_str userId \<or> userId = ''undefined'' \<or> userId = ''null'' \<or> trim userId = [] then
        \<lparr>http_response =
           \<lparr>status = 400,
            body = UserJson \<lparr>success = False, message = ''Valid user ID is required'',
                             user = None\<rparr>\<rparr>,
         calls = [],
         stores_after = st\<rparr>
      else
        (let request = trim userId
         in case rpc (gateway_userClient n) (GetUser request) st of
              (result, st') \<Rightarrow>
                \<lparr>http_response = callback UserJson result,
                 calls = [GetUser_call request],
                 stores_after = st'\<rparr>))"

text \<open>\<open>GET /api/users\<close>\<close>

definition get_users :: "net \<Rightarrow> stores \<Rightarrow> run" where
  "get_users n st =
     (case rpc (gateway_userClient n) ListUsers st of
        (result, st') \<Rightarrow>
          \<lparr>http_response = callback UsersJson result,
           calls = [ListUsers_call],
           stores_after = st'\<rparr>)"

text \<open>
  \<open>POST /api/orders\<close>. The body's \<open>amount\<close> and \<open>quantity\<close> arrive as a string
  or a number; \<open>parseFloat\<close> and \<open>parseInt\<close> are the language's own and are
  taken as given.
\<close>

datatype ext_num = ExtMissing | ExtString string | ExtNumber jsnum

definition post_orders ::
  "(ext_num \<Rightarrow> jsnum) \<Rightarrow> (ext_num \<Rightarrow> jsnum) \<Rightarrow> net \<Rightarrow> env
     \<Rightarrow> string \<Rightarrow> string \<Rightarrow> ext_num \<Rightarrow> ext_num \<Rightarrow> stores \<Rightarrow> run" where
  "post_orders parseFloat parseInt n e uid pname amt qty st =
     (let request = \<lparr>user_id = uid, product_name = pname,
                      amount = parseFloat amt, quantity = parseInt qty\<rparr>
      in case rpc (gateway_orderClient n) (CreateOrder (order_userClient n) e request) st of
           (result, st') \<Rightarrow>
             \<lparr>http_response = callback OrderJson result,
              calls = [CreateOrder_call request],
              stores_after = st'\<rparr>)"

text \<open>\<open>GET /api/orders/:orderId\<close>\<close>

definition get_order :: "net \<Rightarrow> string \<Rightarrow> stores \<Rightarrow> run" where
  "get_order n orderId st =
     (case rpc (gateway_orderClient n) (GetOrder orderId) st of
        (result, st') \<Rightarrow>
          \<lparr>http_response = callback OrderJson result,
           calls = [GetOrder_call orderId],
           stores_after = st'\<rparr>)"

text \<open>\<open>GET /api/users/:userId/orders\<close>\<close>

definition get_user_orders :: "net \<Rightarrow> string \<Rightarrow> stores \<Rightarrow> run" where
  "get_user_orders n userId st =
     (case rpc (gateway_orderClient n) (GetOrdersByUser userId) st of
        (result, st') \<Rightarrow>
          \<lparr>http_response = callback OrdersJson result,
           calls = [GetOrdersByUser_call userId],
           stores_after = st'\<rparr>)"

text \<open>
  \<open>GET /api/users/:userId/profile\<close>. Both promises are created before the
  \<open>await\<close>; \<open>Promise.all\<close> resolves with both responses or rejects with the
  error of the promise that rejected first (\<open>user_first\<close> says which, when both do).
\<close>

definition profile_join :: "bool \<Rightarrow> string + user_reply \<Rightarrow> string + orders_reply \<Rightarrow> http" where
  "profile_join user_first userResult ordersResult =
     (case (userResult, ordersResult) of
        (Inr userResponse, Inr ordersResponse) \<Rightarrow>
          (if success userResponse then
             res_json (ProfileJson
               \<lparr>success = True, message = ''User profile retrieved successfully'',
                data = \<lparr>profile_user = user userResponse,
                        profile_orders = orders ordersResponse,
                        order_count = length (orders ordersResponse)\<rparr>\<rparr>)
           else
             \<lparr>status = 404,
              body = PlainJson \<lparr>success = False, message = ''User not found''\<rparr>\<rparr>)
      | (Inl err, Inr _) \<Rightarrow> handleGrpcError err
      | (Inr _, Inl err) \<Rightarrow> handleGrpcError err
      | (Inl err1, Inl err2) \<Rightarrow> handleGrpcError (if user_first then err1 else err2))"

definition get_user_profile :: "bool \<Rightarrow> net \<Rightarrow> string \<Rightarrow> stores \<Rightarrow> run" where
  "get_user_profile user_first n userId st =
     (case rpc (gateway_userClient n) (GetUser userId) st of
        (userResult, st1) \<Rightarrow>
          (case rpc (gateway_orderClient n) (GetOrdersByUser userId) st1 of
             (ordersResult, st2) \<Rightarrow>
               \<lparr>http_response = profile_join user_first userResult ordersResult,
                calls = [GetUser_call userId, GetOrdersByUser_call userId],
                stores_after = st2\<rparr>))"

text \<open>
  The error \<open>Promise.all\<close> rejects with, from the fates of the two calls of the
  profile route.
\<close>

fun first_fault :: "bool \<Rightarrow> link \<Rightarrow> link \<Rightarrow> string option" where
  "first_fault user_first lu lo =
     (case (fault_of lu, fault_of lo) of
        (None, None) \<Rightarrow> None
      | (Some mu, None) \<Rightarrow> Some mu
      | (None, Some mo) \<Rightarrow> Some mo
      | (Some mu, Some mo) \<Rightarrow> Some (if user_first then mu else mo))"

section \<open>Sequences of read operations\<close>

datatype read_op =
    Read_GetUser string
  | Read_GetOrder string
  | Read_ListUsers
  | Read_GetOrdersByUser string

fun run_read :: "read_op \<Rightarrow> stores \<Rightarrow> stores" where
  "run_read (Read_GetUser uid) st = snd (GetUser uid st)"
| "run_read (Read_GetOrder oid) st = snd (GetOrder oid st)"
| "run_read Read_ListUsers st = snd (ListUsers st)"
| "run_read (Read_GetOrdersByUser uid) st = snd (GetOrdersByUser uid st)"

section \<open>Facts about \<open>Map\<close> and the handlers\<close>

lemma Map_get_Map_set: "Map_get k (Map_set k v m) = Some v"
  by (induction m) auto

lemma Map_set_fresh: "Map_get k m = None \<Longrightarrow> Map_set k v m = m @ [(k, v)]"
  by (induction m) (auto split: if_splits)

lemma Map_size_Map_set_fresh:
  "Map_get k m = None \<Longrightarrow> Map_size (Map_set k v m) = Map_size m + 1"
  by (simp add: Map_set_fresh Map_size_def)

lemma GetUser_frame: "snd (GetUser uid st) = st"
  by (simp add: GetUser_def split: option.splits)

lemma GetOrder_frame: "snd (GetOrder oid st) = st"
  by (simp add: GetOrder_def split: option.splits)

lemma ListUsers_frame: "snd (ListUsers st) = st"
  by (simp add: ListUsers_def Let_def)

lemma GetOrdersByUser_frame: "snd (GetOrdersByUser uid st) = st"
  by (simp add: GetOrdersByUser_def Let_def)

lemma run_read_frame: "run_read op st = st"
  by (cases op) (simp_all add: GetUser_frame GetOrder_frame ListUsers_frame GetOrdersByUser_frame)

lemma GetUser_absent:
  "Map_get uid (user_store st) = None \<Longrightarrow>
     user (fst (GetUser uid st)) = None \<and> \<not> success (fst (GetUser uid st))"
  by (simp add: GetUser_def)

lemma GetUser_present:
  "uid \<noteq> [] \<Longrightarrow> Map_get uid (user_store st) = Some u \<Longrightarrow>
     GetUser uid st = (\<lparr>success = True, message = ''User found'', user = Some u\<rparr>, st)"
  by (simp add: GetUser_def not_str_def)

lemma rpc_read: "snd (handler st) = st \<Longrightarrow> snd (rpc l handler st) = st"
  by (cases l) (auto simp: rpc_def split: prod.splits)

lemma rpc_Up: "rpc Up handler st = (Inr (fst (handler st)), snd (handler st))"
  by (simp add: rpc_def split: prod.splits)

lemma verifyUser_frame: "snd (verifyUser l uid st) = st"
  using rpc_read [of "GetUser uid" st l, OF GetUser_frame]
  by (auto simp: verifyUser_def split: prod.splits sum.splits)

lemma verifyUser_absent:
  "Map_get uid (user_store st) = None \<Longrightarrow>
     fst (verifyUser l uid st) = (case fault_of l of Some msg \<Rightarrow> Inl msg | None \<Rightarrow> Inr None)"
  using GetUser_absent [of uid st]
  by (cases l) (auto simp: verifyUser_def rpc_def split: prod.splits sum.splits)

lemma CreateOrder_guard:
  assumes "user_id req = [] \<or> product_name req = []
           \<or> not_num (amount req) \<or> not_num (quantity req)"
  shows "CreateOrder l e req st =
         (\<lparr>success = False,
           message = ''User ID, Product Name, Amount and Quantity are required'',
           order = None\<rparr>, st)"
  using assms by (auto simp: CreateOrder_def not_str_def)

lemma rpc_snd:
  "snd (rpc l handler st) = (case l of Unreachable msg \<Rightarrow> st | _ \<Rightarrow> snd (handler st))"
  by (cases l) (simp_all add: rpc_def split: prod.splits)


lemma CreateOrder_accepts:
  assumes "user_id req \<noteq> []" and "product_name req \<noteq> []"
    and "\<not> not_num (amount req)" and "\<not> not_num (quantity req)"
    and "Map_get (user_id req) (user_store st) = Some u"
  shows "CreateOrder Up e req st =
     (\<lparr>success = True, message = ''Order created successfully'',
       order = Some \<lparr>o_id = uuid e, o_user_id = user_id req,
                     o_product_name = product_name req, o_amount = amount req,
                     o_quantity = quantity req, o_status = ''pending'',
                     o_created_at = now e\<rparr>\<rparr>,
      st\<lparr>order_store :=
           Map_set (uuid e)
             \<lparr>o_id = uuid e, o_user_id = user_id req,
              o_product_name = product_name req, o_amount = amount req,
              o_quantity = quantity req, o_status = ''pending'',
              o_created_at = now e\<rparr> (order_store st)\<rparr>)"
proof -
  have "GetUser (user_id req) st
        = (\<lparr>success = True, message = ''User found'', user = Some u\<rparr>, st)"
    using assms(1,5) by (rule GetUser_present)
  then have "verifyUser Up (user_id req) st = (Inr (Some u), st)"
    by (simp add: verifyUser_def rpc_def)
  then show ?thesis
    using assms(1-4) by (simp add: CreateOrder_def not_str_def Let_def)
qed

section \<open>Facts about the routes\<close>

lemma callback_fst:
  "callback as_json (fst (rpc l handler st)) =
     (case fault_of l of
        Some msg \<Rightarrow> handleGrpcError msg
      | None \<Rightarrow> res_json (as_json (fst (handler st))))"
  by (cases l) (simp_all add: rpc_def callback_def split: prod.splits)

lemma post_users_response:
  "http_response (post_users n e nm em st) =
     callback UserJson (fst (rpc (gateway_userClient n) (CreateUser e nm em) st))"
  by (simp add: post_users_def split: prod.splits)

lemma get_users_response:
  "http_response (get_users n st) =
     callback UsersJson (fst (rpc (gateway_userClient n) ListUsers st))"
  by (simp add: get_users_def split: prod.splits)

lemma post_orders_response:
  "http_response (post_orders pF pI n e uid pname amt qty st) =
     callback OrderJson (fst (rpc (gateway_orderClient n)
        (CreateOrder (order_userClient n) e
           \<lparr>user_id = uid, product_name = pname, amount = pF amt, quantity = pI qty\<rparr>) st))"
  by (simp add: post_orders_def Let_def split: prod.splits)

lemma get_order_response:
  "http_response (get_order n orderId st) =
     callback OrderJson (fst (rpc (gateway_orderClient n) (GetOrder orderId) st))"
  by (simp add: get_order_def split: prod.splits)

lemma get_user_orders_response:
  "http_response (get_user_orders n userId st) =
     callback OrdersJson (fst (rpc (gateway_orderClient n) (GetOrdersByUser userId) st))"
  by (simp add: get_user_orders_def split: prod.splits)

lemma get_user_response:
  "userId \<noteq> [] \<Longrightarrow> userId \<noteq> ''undefined'' \<Longrightarrow> userId \<noteq> ''null'' \<Longrightarrow> trim userId \<noteq> [] \<Longrightarrow>
   http_response (get_user n userId st) =
     callback UserJson (fst (rpc (gateway_userClient n) (GetUser (trim userId)) st))"
  by (simp add: get_user_def not_str_def Let_def split: prod.splits)

lemma profile_response:
  "http_response (get_user_profile user_first n userId st) =
     profile_join user_first (fst (rpc (gateway_userClient n) (GetUser userId) st))
       (fst (rpc (gateway_orderClient n) (GetOrdersByUser userId) st))"
proof -
  have "snd (rpc (gateway_userClient n) (GetUser userId) st) = st"
    by (rule rpc_read) (rule GetUser_frame)
  then show ?thesis
    by (cases "rpc (gateway_userClient n) (GetUser userId) st";
        cases "rpc (gateway_orderClient n) (GetOrdersByUser userId) st")
       (simp add: get_user_profile_def)
qed

lemma profile_join_fault:
  "first_fault user_first lu lo = Some msg \<Longrightarrow>
   profile_join user_first (fst (rpc lu hu st)) (fst (rpc lo ho st)) = handleGrpcError msg"
  by (cases lu; cases lo) (auto simp: rpc_def profile_join_def split: prod.splits)

lemma post_orders_stores:
  "stores_after (post_orders pF pI n e uid pname amt qty st) =
     snd (rpc (gateway_orderClient n)
        (CreateOrder (order_userClient n) e
           \<lparr>user_id = uid, product_name = pname, amount = pF amt, quantity = pI qty\<rparr>) st)"
  by (simp add: post_orders_def Let_def split: prod.splits)

lemma post_orders_calls:
  "calls (post_orders pF pI n e uid pname amt qty st) =
     [CreateOrder_call \<lparr>user_id = uid, product_name = pname,
                         amount = pF amt, quantity = pI qty\<rparr>]"
  by (simp add: post_orders_def Let_def split: prod.splits)




section \<open>Order creation\<close>

text \<open>
  Claim C1, as amended. When the \<open>userId\<close> of a \<open>CreateOrder\<close> request is absent
  from the user store, both stores are left as they were and the response has
  \<open>success: false\<close> and no order, whatever the other fields are and whatever
  becomes of the dependency call. Its message is the guard's,
  \<open>User ID, Product Name, Amount and Quantity are required\<close>, when a string field is
  empty or a number is zero or \<open>NaN\<close>; otherwise it is the error's own message when
  the dependency call fails, and \<open>Invalid User ID\<close> when the dependency call brings
  back the user service's response.
\<close>

theorem CreateOrder_unknown_user:
  assumes "Map_get (user_id req) (user_store st) = None"
  shows "CreateOrder l e req st =
           (\<lparr>success = False,
             message =
               (if user_id req = [] \<or> product_name req = []
                   \<or> not_num (amount req) \<or> not_num (quantity req)
                then ''User ID, Product Name, Amount and Quantity are required''
                else case fault_of l of Some msg \<Rightarrow> msg | None \<Rightarrow> ''Invalid User ID''),
             order = None\<rparr>, st)
       \<and> snd (CreateOrder l e req st) = st
       \<and> \<not> success (fst (CreateOrder l e req st))
       \<and> order (fst (CreateOrder l e req st)) = None
       \<and> (user_id req \<noteq> [] \<and> product_name req \<noteq> []
            \<and> \<not> not_num (amount req) \<and> \<not> not_num (quantity req) \<and> l = Up
          \<longrightarrow> message (fst (CreateOrder l e req st)) = ''Invalid User ID'')"
proof -
  have fr: "snd (verifyUser l (user_id req) st) = st"
    by (rule verifyUser_frame)
  have ab: "fst (verifyUser l (user_id req) st)
            = (case fault_of l of Some msg \<Rightarrow> Inl msg | None \<Rightarrow> Inr None)"
    using assms by (rule verifyUser_absent)
  obtain r where v: "verifyUser l (user_id req) st = (r, st)"
    using fr by (cases "verifyUser l (user_id req) st") simp
  show ?thesis
    using ab v by (cases l) (simp_all add: CreateOrder_def not_str_def)
qed

theorem CreateOrder_unknown_user_witness:
  "Map_get ''ghost'' [(''u-1'', \<lparr>u_id = ''u-1'', u_name = ''Alex'',
        u_email = ''alex@example.com'', u_created_at = ''t0''\<rparr>)] = None
   \<and> CreateOrder Up \<lparr>uuid = ''o-1'', now = ''t1''\<rparr>
        \<lparr>user_id = ''ghost'', product_name = ''Widget'', amount = Finite 9.99,
         quantity = Finite 2\<rparr>
        \<lparr>user_store = [(''u-1'', \<lparr>u_id = ''u-1'', u_name = ''Alex'',
            u_email = ''alex@example.com'', u_created_at = ''t0''\<rparr>)], order_store = []\<rparr>
      = (\<lparr>success = False, message = ''Invalid User ID'', order = None\<rparr>,
         \<lparr>user_store = [(''u-1'', \<lparr>u_id = ''u-1'', u_name = ''Alex'',
            u_email = ''alex@example.com'', u_created_at = ''t0''\<rparr>)], order_store = []\<rparr>)
   \<and> CreateOrder (Unreachable ''14 UNAVAILABLE'') \<lparr>uuid = ''o-1'', now = ''t1''\<rparr>
        \<lparr>user_id = ''ghost'', product_name = ''Widget'', amount = Finite 9.99,
         quantity = Finite 2\<rparr>
        \<lparr>user_store = [(''u-1'', \<lparr>u_id = ''u-1'', u_name = ''Alex'',
            u_email = ''alex@example.com'', u_created_at = ''t0''\<rparr>)], order_store = []\<rparr>
      = (\<lparr>success = False, message = ''14 UNAVAILABLE'', order = None\<rparr>,
         \<lparr>user_store = [(''u-1'', \<lparr>u_id = ''u-1'', u_name = ''Alex'',
            u_email = ''alex@example.com'', u_created_at = ''t0''\<rparr>)], order_store = []\<rparr>)
   \<and> CreateOrder Up \<lparr>uuid = ''o-1'', now = ''t1''\<rparr>
        \<lparr>user_id = ''ghost'', product_name = ''Widget'', amount = NaN,
         quantity = Finite 2\<rparr>
        \<lparr>user_store = [(''u-1'', \<lparr>u_id = ''u-1'', u_name = ''Alex'',
            u_email = ''alex@example.com'', u_created_at = ''t0''\<rparr>)], order_store = []\<rparr>
      = (\<lparr>success = False,
          message = ''User ID, Product Name, Amount and Quantity are required'',
          order = None\<rparr>,
         \<lparr>user_store = [(''u-1'', \<lparr>u_id = ''u-1'', u_name = ''Alex'',
            u_email = ''alex@example.com'', u_created_at = ''t0''\<rparr>)], order_store = []\<rparr>)"
  using CreateOrder_unknown_user
    [of "\<lparr>user_id = ''ghost'', product_name = ''Widget'', amount = Finite 9.99,
          quantity = Finite 2\<rparr>"
        "\<lparr>user_store = [(''u-1'', \<lparr>u_id = ''u-1'', u_name = ''Alex'',
            u_email = ''alex@example.com'', u_created_at = ''t0''\<rparr>)], order_store = []\<rparr>"
        Up "\<lparr>uuid = ''o-1'', now = ''t1''\<rparr>"]
    CreateOrder_unknown_user
    [of "\<lparr>user_id = ''ghost'', product_name = ''Widget'', amount = Finite 9.99,
          quantity = Finite 2\<rparr>"
        "\<lparr>user_store = [(''u-1'', \<lparr>u_id = ''u-1'', u_name = ''Alex'',
            u_email = ''alex@example.com'', u_created_at = ''t0''\<rparr>)], order_store = []\<rparr>"
        "Unreachable ''14 UNAVAILABLE''" "\<lparr>uuid = ''o-1'', now = ''t1''\<rparr>"]
    CreateOrder_unknown_user
    [of "\<lparr>user_id = ''ghost'', product_name = ''Widget'', amount = NaN,
          quantity = Finite 2\<rparr>"
        "\<lparr>user_store = [(''u-1'', \<lparr>u_id = ''u-1'', u_name = ''Alex'',
            u_email = ''alex@example.com'', u_created_at = ''t0''\<rparr>)], order_store = []\<rparr>"
        Up "\<lparr>uuid = ''o-1'', now = ''t1''\<rparr>"]
  by simp

text \<open>
  The claim as first stated fails where the guard answers first: the user
  \<open>ghost\<close> is absent and the product name is empty, and the message is the guard's.
\<close>

theorem CreateOrder_unknown_user_counterexample:
  "Map_get ''ghost'' (user_store \<lparr>user_store = [], order_store = []\<rparr>) = None
   \<and> message (fst (CreateOrder Up \<lparr>uuid = ''o-1'', now = ''t0''\<rparr>
        \<lparr>user_id = ''ghost'', product_name = [], amount = Finite 1, quantity = Finite 1\<rparr>
        \<lparr>user_store = [], order_store = []\<rparr>))
      = ''User ID, Product Name, Amount and Quantity are required''
   \<and> message (fst (CreateOrder Up \<lparr>uuid = ''o-1'', now = ''t0''\<rparr>
        \<lparr>user_id = ''ghost'', product_name = [], amount = Finite 1, quantity = Finite 1\<rparr>
        \<lparr>user_store = [], order_store = []\<rparr>))
      \<noteq> ''Invalid User ID''"
  by (simp add: CreateOrder_def not_str_def)

text \<open>
  Claim C2. A \<open>CreateOrder\<close> request whose four fields are non-empty, whose
  \<open>userId\<close> is in the user store and whose dependency call succeeds, run with a
  fresh identifier from \<open>uuidv4\<close>, makes the order store one entry larger, leaves
  the user store alone, and returns \<open>success: true\<close> with an order whose status is
  \<open>pending\<close> and whose owner is the given \<open>userId\<close>; that order is the one stored.
\<close>

theorem CreateOrder_known_user:
  assumes "user_id req \<noteq> []" and "product_name req \<noteq> []"
    and "\<not> not_num (amount req)" and "\<not> not_num (quantity req)"
    and "Map_get (user_id req) (user_store st) = Some u"
    and "l = Up"
    and "Map_get (uuid e) (order_store st) = None"
  shows "Map_size (order_store (snd (CreateOrder l e req st))) = Map_size (order_store st) + 1
       \<and> user_store (snd (CreateOrder l e req st)) = user_store st
       \<and> success (fst (CreateOrder l e req st))
       \<and> order (fst (CreateOrder l e req st))
           = Some \<lparr>o_id = uuid e, o_user_id = user_id req,
                   o_product_name = product_name req, o_amount = amount req,
                   o_quantity = quantity req, o_status = ''pending'',
                   o_created_at = now e\<rparr>
       \<and> Map_get (uuid e) (order_store (snd (CreateOrder l e req st)))
           = order (fst (CreateOrder l e req st))"
proof -
  have g: "GetUser (user_id req) st
           = (\<lparr>success = True, message = ''User found'', user = Some u\<rparr>, st)"
    using assms(1,5) by (rule GetUser_present)
  have v: "verifyUser l (user_id req) st = (Inr (Some u), st)"
    using g assms(6) by (simp add: verifyUser_def rpc_def)
  show ?thesis
    using assms(1-4,7) v
    by (simp add: CreateOrder_def not_str_def Map_size_Map_set_fresh Map_get_Map_set Let_def)
qed

theorem CreateOrder_known_user_witness:
  "Map_size (order_store (snd (CreateOrder Up \<lparr>uuid = ''o-1'', now = ''t1''\<rparr>
        \<lparr>user_id = ''u-1'', product_name = ''Widget'', amount = Finite 9.99,
         quantity = Finite 2\<rparr>
        \<lparr>user_store = [(''u-1'', \<lparr>u_id = ''u-1'', u_name = ''Alex'',
            u_email = ''alex@example.com'', u_created_at = ''t0''\<rparr>)], order_store = []\<rparr>))) = 1
   \<and> order (fst (CreateOrder Up \<lparr>uuid = ''o-1'', now = ''t1''\<rparr>
        \<lparr>user_id = ''u-1'', product_name = ''Widget'', amount = Finite 9.99,
         quantity = Finite 2\<rparr>
        \<lparr>user_store = [(''u-1'', \<lparr>u_id = ''u-1'', u_name = ''Alex'',
            u_email = ''alex@example.com'', u_created_at = ''t0''\<rparr>)], order_store = []\<rparr>))
      = Some \<lparr>o_id = ''o-1'', o_user_id = ''u-1'', o_product_name = ''Widget'',
              o_amount = Finite 9.99, o_quantity = Finite 2, o_status = ''pending'',
              o_created_at = ''t1''\<rparr>"
  using CreateOrder_known_user
    [of "\<lparr>user_id = ''u-1'', product_name = ''Widget'', amount = Finite 9.99,
          quantity = Finite 2\<rparr>"
        "\<lparr>user_store = [(''u-1'', \<lparr>u_id = ''u-1'', u_name = ''Alex'',
            u_email = ''alex@example.com'', u_created_at = ''t0''\<rparr>)], order_store = []\<rparr>"
        "\<lparr>u_id = ''u-1'', u_name = ''Alex'', u_email = ''alex@example.com'',
          u_created_at = ''t0''\<rparr>"
        Up "\<lparr>uuid = ''o-1'', now = ''t1''\<rparr>"]
  by (simp add: Map_size_def)

text \<open>
  Claim C3, as amended. \<open>CreateOrder\<close> answers with the required-field rejection
  (\<open>success: false\<close>, no order) and leaves both stores as they were whenever the
  user id or the product name is missing or empty, or the amount or the quantity is
  missing, zero or \<open>NaN\<close>. This guard does not look at the sign of a number.
\<close>

theorem CreateOrder_required_fields:
  assumes "user_id req = [] \<or> product_name req = []
           \<or> amount req = Finite 0 \<or> amount req = NaN
           \<or> quantity req = Finite 0 \<or> quantity req = NaN"
  shows "CreateOrder l e req st =
         (\<lparr>success = False,
           message = ''User ID, Product Name, Amount and Quantity are required'',
           order = None\<rparr>, st)"
proof -
  have "user_id req = [] \<or> product_name req = []
        \<or> not_num (amount req) \<or> not_num (quantity req)"
    using assms by auto
  then show ?thesis
    by (rule CreateOrder_guard)
qed

theorem CreateOrder_required_fields_witness:
  "CreateOrder Up \<lparr>uuid = ''o-1'', now = ''t1''\<rparr>
     \<lparr>user_id = ''u-1'', product_name = ''Widget'', amount = Finite 9.99,
      quantity = Finite 0\<rparr>
     \<lparr>user_store = [(''u-1'', \<lparr>u_id = ''u-1'', u_name = ''Alex'',
         u_email = ''alex@example.com'', u_created_at = ''t0''\<rparr>)], order_store = []\<rparr>
   = (\<lparr>success = False,
       message = ''User ID, Product Name, Amount and Quantity are required'',
       order = None\<rparr>,
      \<lparr>user_store = [(''u-1'', \<lparr>u_id = ''u-1'', u_name = ''Alex'',
         u_email = ''alex@example.com'', u_created_at = ''t0''\<rparr>)], order_store = []\<rparr>)"
  using CreateOrder_required_fields
    [of "\<lparr>user_id = ''u-1'', product_name = ''Widget'', amount = Finite 9.99,
          quantity = Finite 0\<rparr>"]
  by simp

text \<open>
  The claim as first stated fails on negative numbers: for an existing user, an
  amount of \<open>-5\<close> and a quantity of \<open>-2\<close> pass the guard and the order is stored.
\<close>

theorem CreateOrder_negative_counterexample:
  "success (fst (CreateOrder Up \<lparr>uuid = ''o-1'', now = ''t1''\<rparr>
        \<lparr>user_id = ''u-1'', product_name = ''Widget'', amount = Finite (- 5),
         quantity = Finite (- 2)\<rparr>
        \<lparr>user_store = [(''u-1'', \<lparr>u_id = ''u-1'', u_name = ''Alex'',
            u_email = ''alex@example.com'', u_created_at = ''t0''\<rparr>)], order_store = []\<rparr>))
   \<and> order_store (snd (CreateOrder Up \<lparr>uuid = ''o-1'', now = ''t1''\<rparr>
        \<lparr>user_id = ''u-1'', product_name = ''Widget'', amount = Finite (- 5),
         quantity = Finite (- 2)\<rparr>
        \<lparr>user_store = [(''u-1'', \<lparr>u_id = ''u-1'', u_name = ''Alex'',
            u_email = ''alex@example.com'', u_created_at = ''t0''\<rparr>)], order_store = []\<rparr>))
      = [(''o-1'', \<lparr>o_id = ''o-1'', o_user_id = ''u-1'', o_product_name = ''Widget'',
            o_amount = Finite (- 5), o_quantity = Finite (- 2), o_status = ''pending'',
            o_created_at = ''t1''\<rparr>)]"
  by (simp add: CreateOrder_def verifyUser_def rpc_def GetUser_def not_str_def Let_def)

section \<open>User service round trip\<close>

text \<open>
  Claim C5. For every non-empty name and address, \<open>CreateUser\<close> returns the new
  user record, and \<open>GetUser\<close> with that record's identifier, run on the stores
  \<open>CreateUser\<close> left, returns the same record: identifier, name, address and
  creation time. The identifier is what \<open>uuidv4()\<close> gave, a non-empty string.
\<close>

theorem CreateUser_then_GetUser:
  assumes "nm \<noteq> []" and "em \<noteq> []" and "uuid e \<noteq> []"
  shows "fst (CreateUser e nm em st)
           = \<lparr>success = True, message = ''User created successfully'',
              user = Some \<lparr>u_id = uuid e, u_name = nm, u_email = em, u_created_at = now e\<rparr>\<rparr>
       \<and> fst (GetUser (uuid e) (snd (CreateUser e nm em st)))
           = \<lparr>success = True, message = ''User found'',
              user = user (fst (CreateUser e nm em st))\<rparr>"
  using assms by (simp add: CreateUser_def GetUser_def not_str_def Map_get_Map_set Let_def)

theorem CreateUser_then_GetUser_witness:
  "user (fst (GetUser ''u-2''
      (snd (CreateUser \<lparr>uuid = ''u-2'', now = ''t2''\<rparr> ''Sam'' ''sam@example.com''
         \<lparr>user_store = [(''u-1'', \<lparr>u_id = ''u-1'', u_name = ''Alex'',
             u_email = ''alex@example.com'', u_created_at = ''t0''\<rparr>)], order_store = []\<rparr>))))
   = Some \<lparr>u_id = ''u-2'', u_name = ''Sam'', u_email = ''sam@example.com'',
           u_created_at = ''t2''\<rparr>"
  using CreateUser_then_GetUser
    [of "''Sam''" "''sam@example.com''" "\<lparr>uuid = ''u-2'', now = ''t2''\<rparr>"
        "\<lparr>user_store = [(''u-1'', \<lparr>u_id = ''u-1'', u_name = ''Alex'',
             u_email = ''alex@example.com'', u_created_at = ''t0''\<rparr>)], order_store = []\<rparr>"]
  by simp

section \<open>Read operations\<close>

text \<open>
  Claim C9. \<open>GetUser\<close>, \<open>GetOrder\<close>, \<open>ListUsers\<close> and \<open>GetOrdersByUser\<close>
  leave the user store and the order store as they were, on every input, and so
  does any sequence of them, of any length and in any order.
\<close>

theorem reads_leave_stores_unchanged:
  "snd (GetUser uid st) = st \<and> snd (GetOrder oid st) = st \<and> snd (ListUsers st) = st
   \<and> snd (GetOrdersByUser uid' st) = st \<and> fold run_read ops st = st"
proof -
  have "fold run_read ops st = st"
    by (induction ops) (simp_all add: run_read_frame)
  then show ?thesis
    by (simp add: GetUser_frame GetOrder_frame ListUsers_frame GetOrdersByUser_frame)
qed

section \<open>Gateway routes\<close>

text \<open>
  Claim C6. When the identifier in the path of the get-user route is empty, the
  string \<open>undefined\<close>, the string \<open>null\<close>, or blank after trimming, the gateway
  answers by itself with status 400 and the body
  \<open>{success: false, message: 'Valid user ID is required', user: null}\<close>; it issues no
  internal call, whatever the state of its client handles, and the stores are untouched.
\<close>

theorem get_user_local_rejection:
  assumes "userId = [] \<or> userId = ''undefined'' \<or> userId = ''null'' \<or> trim userId = []"
  shows "get_user n userId st =
         \<lparr>http_response =
            \<lparr>status = 400,
             body = UserJson \<lparr>success = False, message = ''Valid user ID is required'',
                              user = None\<rparr>\<rparr>,
          calls = [], stores_after = st\<rparr>"
  using assms by (auto simp: get_user_def not_str_def)

theorem get_user_local_rejection_witness:
  "trim [CHR '' '', CHR 0x09, CHR '' ''] = []
   \<and> calls (get_user \<lparr>gateway_userClient = Up, gateway_orderClient = Up, order_userClient = Up\<rparr>
        [CHR '' '', CHR 0x09, CHR '' ''] \<lparr>user_store = [], order_store = []\<rparr>) = []
   \<and> status (http_response
        (get_user \<lparr>gateway_userClient = Up, gateway_orderClient = Up, order_userClient = Up\<rparr>
           ''undefined'' \<lparr>user_store = [], order_store = []\<rparr>)) = 400"
  using get_user_local_rejection
    [of "[CHR '' '', CHR 0x09, CHR '' '']"
        "\<lparr>gateway_userClient = Up, gateway_orderClient = Up, order_userClient = Up\<rparr>"
        "\<lparr>user_store = [], order_store = []\<rparr>"]
    get_user_local_rejection
    [of "''undefined''"
        "\<lparr>gateway_userClient = Up, gateway_orderClient = Up, order_userClient = Up\<rparr>"
        "\<lparr>user_store = [], order_store = []\<rparr>"]
  by (simp add: trim_def js_whitespace_def)



text \<open>
  Claim C7. \<open>handleGrpcError\<close> gives status 500 and the body
  \<open>{success: false, message: 'Internal server error', error: <the error's message>}\<close>,
  and on every route a failed internal call gets exactly that response: the three
  routes calling the user service (get-user once its local check has passed), the
  three calling the order service, and the profile route with the error
  \<open>Promise.all\<close> rejected with. The body has the same shape whichever backend failed.
\<close>

theorem transport_fault_uniform:
  "handleGrpcError msg =
     \<lparr>status = 500,
      body = ErrorJson \<lparr>success = False, message = ''Internal server error'', error = msg\<rparr>\<rparr>
   \<and> (fault_of (gateway_userClient n) = Some msg \<longrightarrow>
        http_response (post_users n e nm em st) = handleGrpcError msg
      \<and> http_response (get_users n st) = handleGrpcError msg
      \<and> (userId \<noteq> [] \<and> userId \<noteq> ''undefined'' \<and> userId \<noteq> ''null'' \<and> trim userId \<noteq> [] \<longrightarrow>
           http_response (get_user n userId st) = handleGrpcError msg))
   \<and> (fault_of (gateway_orderClient n) = Some msg' \<longrightarrow>
        http_response (post_orders pF pI n e uid pname amt qty st) = handleGrpcError msg'
      \<and> http_response (get_order n orderId st) = handleGrpcError msg'
      \<and> http_response (get_user_orders n userId' st) = handleGrpcError msg')
   \<and> (first_fault user_first (gateway_userClient n) (gateway_orderClient n) = Some msg'' \<longrightarrow>
        http_response (get_user_profile user_first n userId'' st) = handleGrpcError msg'')"
  by (simp add: handleGrpcError_def [symmetric] post_users_response get_users_response
        get_user_response post_orders_response get_order_response get_user_orders_response
        profile_response callback_fst profile_join_fault del: first_fault.simps)

theorem transport_fault_uniform_witness:
  "http_response (get_user
      \<lparr>gateway_userClient = Unreachable ''14 UNAVAILABLE'',
       gateway_orderClient = ResponseLost ''13 INTERNAL'', order_userClient = Up\<rparr>
      ''u-1'' \<lparr>user_store = [], order_store = []\<rparr>)
   = \<lparr>status = 500,
      body = ErrorJson \<lparr>success = False, message = ''Internal server error'',
                        error = ''14 UNAVAILABLE''\<rparr>\<rparr>
   \<and> http_response (get_order
      \<lparr>gateway_userClient = Unreachable ''14 UNAVAILABLE'',
       gateway_orderClient = ResponseLost ''13 INTERNAL'', order_userClient = Up\<rparr>
      ''o-1'' \<lparr>user_store = [], order_store = []\<rparr>)
   = \<lparr>status = 500,
      body = ErrorJson \<lparr>success = False, message = ''Internal server error'',
                        error = ''13 INTERNAL''\<rparr>\<rparr>
   \<and> http_response (get_user_profile False
      \<lparr>gateway_userClient = Unreachable ''14 UNAVAILABLE'',
       gateway_orderClient = ResponseLost ''13 INTERNAL'', order_userClient = Up\<rparr>
      ''u-1'' \<lparr>user_store = [], order_store = []\<rparr>)
   = \<lparr>status = 500,
      body = ErrorJson \<lparr>success = False, message = ''Internal server error'',
                        error = ''13 INTERNAL''\<rparr>\<rparr>"
  using transport_fault_uniform
    [where msg = "''14 UNAVAILABLE''" and msg' = "''13 INTERNAL''" and msg'' = "''13 INTERNAL''"
       and n = "\<lparr>gateway_userClient = Unreachable ''14 UNAVAILABLE'',
                 gateway_orderClient = ResponseLost ''13 INTERNAL'', order_userClient = Up\<rparr>"
       and userId = "''u-1''" and userId'' = "''u-1''" and orderId = "''o-1''"
       and user_first = False and st = "\<lparr>user_store = [], order_store = []\<rparr>"]
    transport_fault_uniform [where msg = "''14 UNAVAILABLE''"]
    transport_fault_uniform [where msg = "''13 INTERNAL''"]
  by (simp add: trim_def js_whitespace_def)

text \<open>
  Claim C8. The create-order route hands the order service the request whose
  amount is \<open>parseFloat(amount)\<close> and whose quantity is \<open>parseInt(quantity)\<close>:
  that request is the one call it issues, the stores it leaves are those
  \<open>CreateOrder\<close> leaves on that request, and the body it forwards is
  \<open>CreateOrder\<close>'s answer to it. When either parse gives \<open>NaN\<close>, no order is
  created (both stores stay as they were, whatever becomes of the calls) and the
  answer forwarded is the required-field rejection. When both parses give a number
  other than zero and the user exists, the order is stored with the parsed amount and
  quantity.
\<close>

theorem post_orders_coercion:
  "calls (post_orders pF pI n e uid pname amt qty st)
     = [CreateOrder_call \<lparr>user_id = uid, product_name = pname,
                          amount = pF amt, quantity = pI qty\<rparr>]
   \<and> http_response (post_orders pF pI n e uid pname amt qty st)
     = (case fault_of (gateway_orderClient n) of
          None \<Rightarrow>
            \<lparr>status = 200,
             body = OrderJson (fst (CreateOrder (order_userClient n) e
               \<lparr>user_id = uid, product_name = pname,
                amount = pF amt, quantity = pI qty\<rparr> st))\<rparr>
        | Some msg \<Rightarrow> handleGrpcError msg)
   \<and> stores_after (post_orders pF pI n e uid pname amt qty st)
     = (case gateway_orderClient n of
          Unreachable msg \<Rightarrow> st
        | _ \<Rightarrow> snd (CreateOrder (order_userClient n) e
               \<lparr>user_id = uid, product_name = pname,
                amount = pF amt, quantity = pI qty\<rparr> st))
   \<and> (pF amt = NaN \<or> pI qty = NaN \<longrightarrow>
        stores_after (post_orders pF pI n e uid pname amt qty st) = st
      \<and> (gateway_orderClient n = Up \<longrightarrow>
           http_response (post_orders pF pI n e uid pname amt qty st)
             = \<lparr>status = 200,
                body = OrderJson
                  \<lparr>success = False,
                   message = ''User ID, Product Name, Amount and Quantity are required'',
                   order = None\<rparr>\<rparr>))
   \<and> (uid \<noteq> [] \<and> pname \<noteq> [] \<and> \<not> not_num (pF amt) \<and> \<not> not_num (pI qty)
        \<and> Map_get uid (user_store st) = Some u
        \<and> gateway_orderClient n = Up \<and> order_userClient n = Up \<longrightarrow>
        http_response (post_orders pF pI n e uid pname amt qty st)
          = \<lparr>status = 200,
             body = OrderJson
               \<lparr>success = True, message = ''Order created successfully'',
                order = Some \<lparr>o_id = uuid e, o_user_id = uid, o_product_name = pname,
                              o_amount = pF amt, o_quantity = pI qty,
                              o_status = ''pending'', o_created_at = now e\<rparr>\<rparr>\<rparr>
      \<and> stores_after (post_orders pF pI n e uid pname amt qty st)
          = st\<lparr>order_store :=
                 Map_set (uuid e)
                   \<lparr>o_id = uuid e, o_user_id = uid, o_product_name = pname,
                    o_amount = pF amt, o_quantity = pI qty,
                    o_status = ''pending'', o_created_at = now e\<rparr> (order_store st)\<rparr>)"
proof -
  let ?req = "\<lparr>user_id = uid, product_name = pname, amount = pF amt, quantity = pI qty\<rparr>"
  let ?rej = "\<lparr>success = False,
               message = ''User ID, Product Name, Amount and Quantity are required'',
               order = None\<rparr>"
  let ?run = "post_orders pF pI n e uid pname amt qty st"
  have c: "calls ?run = [CreateOrder_call ?req]"
    by (rule post_orders_calls)
  have h: "http_response ?run
           = (case fault_of (gateway_orderClient n) of
                None \<Rightarrow> \<lparr>status = 200,
                          body = OrderJson (fst (CreateOrder (order_userClient n) e ?req st))\<rparr>
              | Some msg \<Rightarrow> handleGrpcError msg)"
    by (simp add: post_orders_response callback_fst res_json_def split: option.splits)
  have s: "stores_after ?run
           = (case gateway_orderClient n of
                Unreachable msg \<Rightarrow> st
              | _ \<Rightarrow> snd (CreateOrder (order_userClient n) e ?req st))"
    by (simp add: post_orders_stores rpc_snd)
  have r: "pF amt = NaN \<or> pI qty = NaN \<Longrightarrow>
           CreateOrder (order_userClient n) e ?req st = (?rej, st)"
    by (rule CreateOrder_guard) auto
  have s0: "pF amt = NaN \<or> pI qty = NaN \<Longrightarrow> stores_after ?run = st"
    using r by (cases "gateway_orderClient n") (simp_all add: s)
  have h0: "pF amt = NaN \<or> pI qty = NaN \<Longrightarrow> gateway_orderClient n = Up \<Longrightarrow>
            http_response ?run = \<lparr>status = 200, body = OrderJson ?rej\<rparr>"
    using r by (simp add: h)
  have a: "uid \<noteq> [] \<and> pname \<noteq> [] \<and> \<not> not_num (pF amt) \<and> \<not> not_num (pI qty)
           \<and> Map_get uid (user_store st) = Some u
           \<and> gateway_orderClient n = Up \<and> order_userClient n = Up \<Longrightarrow>
           http_response ?run
             = \<lparr>status = 200,
                body = OrderJson
                  \<lparr>success = True, message = ''Order created successfully'',
                   order = Some \<lparr>o_id = uuid e, o_user_id = uid, o_product_name = pname,
                                 o_amount = pF amt, o_quantity = pI qty,
                                 o_status = ''pending'', o_created_at = now e\<rparr>\<rparr>\<rparr>
         \<and> stores_after ?run
             = st\<lparr>order_store :=
                    Map_set (uuid e)
                      \<lparr>o_id = uuid e, o_user_id = uid, o_product_name = pname,
                       o_amount = pF amt, o_quantity = pI qty,
                       o_status = ''pending'', o_created_at = now e\<rparr> (order_store st)\<rparr>"
    using CreateOrder_accepts [of ?req st u e] by (simp add: h s)
  show ?thesis
    using c h s s0 h0 a by blast
qed

theorem post_orders_coercion_witness:
  "http_response (post_orders (\<lambda>x. case x of ExtNumber v \<Rightarrow> v | _ \<Rightarrow> NaN) (\<lambda>x. case x of ExtNumber v \<Rightarrow> v | _ \<Rightarrow> NaN)
      \<lparr>gateway_userClient = Up, gateway_orderClient = Up, order_userClient = Up\<rparr>
      \<lparr>uuid = ''o-1'', now = ''t1''\<rparr> ''u-1'' ''Widget'' (ExtString ''abc'') (ExtNumber (Finite 2))
      \<lparr>user_store = [(''u-1'', \<lparr>u_id = ''u-1'', u_name = ''Alex'',
          u_email = ''alex@example.com'', u_created_at = ''t0''\<rparr>)], order_store = []\<rparr>)
   = \<lparr>status = 200,
      body = OrderJson
        \<lparr>success = False,
         message = ''User ID, Product Name, Amount and Quantity are required'',
         order = None\<rparr>\<rparr>
   \<and> calls (post_orders (\<lambda>x. case x of ExtNumber v \<Rightarrow> v | _ \<Rightarrow> NaN) (\<lambda>x. case x of ExtNumber v \<Rightarrow> v | _ \<Rightarrow> NaN)
      \<lparr>gateway_userClient = Up, gateway_orderClient = Up, order_userClient = Up\<rparr>
      \<lparr>uuid = ''o-1'', now = ''t1''\<rparr> ''u-1'' ''Widget'' (ExtString ''abc'') (ExtNumber (Finite 2))
      \<lparr>user_store = [(''u-1'', \<lparr>u_id = ''u-1'', u_name = ''Alex'',
          u_email = ''alex@example.com'', u_created_at = ''t0''\<rparr>)], order_store = []\<rparr>)
   = [CreateOrder_call \<lparr>user_id = ''u-1'', product_name = ''Widget'',
        amount = NaN, quantity = Finite 2\<rparr>]
   \<and> stores_after (post_orders (\<lambda>x. case x of ExtNumber v \<Rightarrow> v | _ \<Rightarrow> NaN) (\<lambda>x. case x of ExtNumber v \<Rightarrow> v | _ \<Rightarrow> NaN)
      \<lparr>gateway_userClient = Up, gateway_orderClient = Up, order_userClient = Up\<rparr>
      \<lparr>uuid = ''o-1'', now = ''t1''\<rparr> ''u-1'' ''Widget'' (ExtString ''abc'') (ExtNumber (Finite 2))
      \<lparr>user_store = [(''u-1'', \<lparr>u_id = ''u-1'', u_name = ''Alex'',
          u_email = ''alex@example.com'', u_created_at = ''t0''\<rparr>)], order_store = []\<rparr>)
   = \<lparr>user_store = [(''u-1'', \<lparr>u_id = ''u-1'', u_name = ''Alex'',
          u_email = ''alex@example.com'', u_created_at = ''t0''\<rparr>)], order_store = []\<rparr>
   \<and> order_store (stores_after (post_orders (\<lambda>x. case x of ExtNumber v \<Rightarrow> v | _ \<Rightarrow> NaN) (\<lambda>x. case x of ExtNumber v \<Rightarrow> v | _ \<Rightarrow> NaN)
      \<lparr>gateway_userClient = Up, gateway_orderClient = Up, order_userClient = Up\<rparr>
      \<lparr>uuid = ''o-1'', now = ''t1''\<rparr> ''u-1'' ''Widget'' (ExtNumber (Finite 9.99)) (ExtNumber (Finite 2))
      \<lparr>user_store = [(''u-1'', \<lparr>u_id = ''u-1'', u_name = ''Alex'',
          u_email = ''alex@example.com'', u_created_at = ''t0''\<rparr>)], order_store = []\<rparr>))
   = [(''o-1'', \<lparr>o_id = ''o-1'', o_user_id = ''u-1'', o_product_name = ''Widget'',
         o_amount = Finite 9.99, o_quantity = Finite 2, o_status = ''pending'',
         o_created_at = ''t1''\<rparr>)]"
  using post_orders_coercion
    [of "\<lambda>x. case x of ExtNumber v \<Rightarrow> v | _ \<Rightarrow> NaN" "\<lambda>x. case x of ExtNumber v \<Rightarrow> v | _ \<Rightarrow> NaN"
        "\<lparr>gateway_userClient = Up, gateway_orderClient = Up, order_userClient = Up\<rparr>"
        "\<lparr>uuid = ''o-1'', now = ''t1''\<rparr>" "''u-1''" "''Widget''" "ExtString ''abc''"
        "ExtNumber (Finite 2)"
        "\<lparr>user_store = [(''u-1'', \<lparr>u_id = ''u-1'', u_name = ''Alex'',
          u_email = ''alex@example.com'', u_created_at = ''t0''\<rparr>)], order_store = []\<rparr>"]
    post_orders_coercion
    [of "\<lambda>x. case x of ExtNumber v \<Rightarrow> v | _ \<Rightarrow> NaN" "\<lambda>x. case x of ExtNumber v \<Rightarrow> v | _ \<Rightarrow> NaN"
        "\<lparr>gateway_userClient = Up, gateway_orderClient = Up, order_userClient = Up\<rparr>"
        "\<lparr>uuid = ''o-1'', now = ''t1''\<rparr>" "''u-1''" "''Widget''" "ExtNumber (Finite 9.99)"
        "ExtNumber (Finite 2)"
        "\<lparr>user_store = [(''u-1'', \<lparr>u_id = ''u-1'', u_name = ''Alex'',
          u_email = ''alex@example.com'', u_created_at = ''t0''\<rparr>)], order_store = []\<rparr>"
        "\<lparr>u_id = ''u-1'', u_name = ''Alex'', u_email = ''alex@example.com'',
          u_created_at = ''t0''\<rparr>"]
  by (simp add: CreateOrder_def verifyUser_def rpc_def GetUser_def not_str_def Let_def)

text \<open>
  Claim C10. On the five single-backend pass-through routes (create user, list
  users, create order, get order, list orders by user), whenever the internal call
  comes back with a response, the gateway sends that response as the body with
  status 200, whether its \<open>success\<close> flag is true or false. The status of these
  routes is 200 when the call came back and 500 when it failed, never 400; the
  get-user route answers 400 exactly when its own check of the identifier fails.
\<close>

theorem pass_through_forwards_replies:
  "(gateway_userClient n = Up \<longrightarrow>
      http_response (post_users n e nm em st)
        = \<lparr>status = 200, body = UserJson (fst (CreateUser e nm em st))\<rparr>
    \<and> http_response (get_users n st)
        = \<lparr>status = 200, body = UsersJson (fst (ListUsers st))\<rparr>)
   \<and> (gateway_orderClient n = Up \<longrightarrow>
      http_response (post_orders pF pI n e uid pname amt qty st)
        = \<lparr>status = 200,
           body = OrderJson (fst (CreateOrder (order_userClient n) e
             \<lparr>user_id = uid, product_name = pname, amount = pF amt, quantity = pI qty\<rparr> st))\<rparr>
    \<and> http_response (get_order n orderId st)
        = \<lparr>status = 200, body = OrderJson (fst (GetOrder orderId st))\<rparr>
    \<and> http_response (get_user_orders n userId st)
        = \<lparr>status = 200, body = OrdersJson (fst (GetOrdersByUser userId st))\<rparr>)
   \<and> status (http_response (post_users n e nm em st))
        = (case fault_of (gateway_userClient n) of None \<Rightarrow> 200 | Some _ \<Rightarrow> 500)
   \<and> status (http_response (get_users n st))
        = (case fault_of (gateway_userClient n) of None \<Rightarrow> 200 | Some _ \<Rightarrow> 500)
   \<and> status (http_response (post_orders pF pI n e uid pname amt qty st))
        = (case fault_of (gateway_orderClient n) of None \<Rightarrow> 200 | Some _ \<Rightarrow> 500)
   \<and> status (http_response (get_order n orderId st))
        = (case fault_of (gateway_orderClient n) of None \<Rightarrow> 200 | Some _ \<Rightarrow> 500)
   \<and> status (http_response (get_user_orders n userId st))
        = (case fault_of (gateway_orderClient n) of None \<Rightarrow> 200 | Some _ \<Rightarrow> 500)
   \<and> (status (http_response (get_user n userId' st)) = 400
        \<longleftrightarrow> userId' = [] \<or> userId' = ''undefined'' \<or> userId' = ''null'' \<or> trim userId' = [])"
proof -
  have st: "status (callback as_json (fst (rpc l handler st)))
            = (case fault_of l of None \<Rightarrow> 200 | Some _ \<Rightarrow> 500)" for as_json l
      and handler :: "stores \<Rightarrow> 'r \<times> stores"
    by (cases l) (simp_all add: callback_fst res_json_def handleGrpcError_def)
  have up: "l = Up \<Longrightarrow> callback as_json (fst (rpc l handler st))
            = \<lparr>status = 200, body = as_json (fst (handler st))\<rparr>" for as_json l
      and handler :: "stores \<Rightarrow> 'r \<times> stores"
    by (simp add: callback_fst res_json_def)
  have gu: "status (http_response (get_user n userId' st)) = 400
        \<longleftrightarrow> userId' = [] \<or> userId' = ''undefined'' \<or> userId' = ''null'' \<or> trim userId' = []"
  proof (cases "userId' = [] \<or> userId' = ''undefined'' \<or> userId' = ''null'' \<or> trim userId' = []")
    case True
    then show ?thesis
      by (auto simp: get_user_def not_str_def)
  next
    case False
    then have "http_response (get_user n userId' st) =
      callback UserJson (fst (rpc (gateway_userClient n) (GetUser (trim userId')) st))"
      by (simp add: get_user_response)
    then show ?thesis
      using False st [of UserJson "gateway_userClient n" "GetUser (trim userId')"]
      by (simp split: option.splits)
  qed
  show ?thesis
    unfolding post_users_response get_users_response post_orders_response
      get_order_response get_user_orders_response
    using gu by (simp add: st up)
qed

theorem pass_through_forwards_replies_witness:
  "http_response (get_order
      \<lparr>gateway_userClient = Up, gateway_orderClient = Up, order_userClient = Up\<rparr>
      ''missing'' \<lparr>user_store = [], order_store = []\<rparr>)
   = \<lparr>status = 200,
      body = OrderJson \<lparr>success = False, message = ''Order not found'', order = None\<rparr>\<rparr>
   \<and> http_response (post_users
      \<lparr>gateway_userClient = Up, gateway_orderClient = Up, order_userClient = Up\<rparr>
      \<lparr>uuid = ''u-1'', now = ''t0''\<rparr> [] ''alex@example.com''
      \<lparr>user_store = [], order_store = []\<rparr>)
   = \<lparr>status = 200,
      body = UserJson \<lparr>success = False, message = ''Name and email are required'',
                       user = None\<rparr>\<rparr>"
  using pass_through_forwards_replies
    [where n = "\<lparr>gateway_userClient = Up, gateway_orderClient = Up, order_userClient = Up\<rparr>"
       and st = "\<lparr>user_store = [], order_store = []\<rparr>" and orderId = "''missing''"
       and e = "\<lparr>uuid = ''u-1'', now = ''t0''\<rparr>" and nm = "[]" and em = "''alex@example.com''"]
  by (simp add: GetOrder_def CreateUser_def not_str_def)

end
